theory Spec2Isabelle
  imports Main
begin

section \<open>The textfit-div custom element\<close>

text \<open>
  The element is a thin adapter around the external routine \<open>textFit\<close>. Its state is the
  set of declared properties; its members are \<open>connectedCallback\<close> or \<open>ready\<close>, the
  lifecycle callbacks \<open>attached\<close> and \<open>detached\<close>, the observer \<open>_textChanged\<close>, the
  \<open>iron-resize\<close> handler and \<open>doFitMe\<close>. Everything outside the class body is made explicit:
  \<^item> the stamped template (the \<open>div#fitMe\<close> and the \<open>.textFitted\<close> span that the library
    inserts) is a record of the four quantities the code reads or writes;
  \<^item> \<open>this.async(cb)\<close> appends \<open>cb\<close> to the list of callbacks that the next microtask
    checkpoint runs, one entry for each call;
  \<^item> \<open>textFit\<close> is a parameter: a function from the element reference, the options record
    and the rendered subtree to a possibly raised exception and the subtree it leaves. It is
    handed the \<open>fitMe\<close> node and a fresh object literal, and is taken to act on that
    subtree only;
  \<^item> calls that leave the component (\<open>textFit\<close>, \<open>console.debug\<close>, \<open>console.warn\<close>) are
    appended to a trace;
  \<^item> the inherited members that the class calls through \<open>super\<close> are library code; they
    are written out below as far as they act on this state.
\<close>

subsection \<open>Data\<close>

text \<open>The options record literal built in \<open>doFitMe\<close>. Numbers are passed through untouched,
  so the type of a JavaScript Number stays a parameter.\<close>

record 'n options =
  alignHoriz :: bool
  alignVert :: bool
  multiLine :: bool
  detectMultiLine :: bool
  minFontSize :: 'n
  maxFontSize :: 'n
  reProcess :: bool
  widthOnly :: bool
  alignVertWithFlexbox :: bool

text \<open>The twelve entries of \<open>static get properties()\<close>, in the order of the source.\<close>

record 'n component =
  "text" :: string
  isAttached :: bool
  horizontalCenter :: bool
  verticalCenter :: bool
  multiLine :: bool
  detectMultiLine :: bool
  minFontSize :: 'n
  maxFontSize :: 'n
  reProcess :: bool
  widthOnly :: bool
  manualFire :: bool
  alignVertWithFlexbox :: bool

text \<open>What the code observes of its shadow root: \<open>this.$.fitMe.innerHTML\<close>,
  \<open>this.$.fitMe.clientHeight\<close>, \<open>this.$.fitMe.clientWidth\<close>, and the \<open>innerHTML\<close> of
  \<open>this.shadowRoot.querySelector('.textFitted')\<close> (\<open>None\<close> when the query yields
  \<open>null\<close>).\<close>

record shadowRoot =
  fitMe_innerHTML :: string
  fitMe_clientHeight :: int
  fitMe_clientWidth :: int
  textFitted :: "string option"

datatype node_ref = Host | FitMe | TextFittedSpan

datatype exn = Exn string

datatype callback = DoFitMe

datatype 'n effect =
    TextFit node_ref "'n options"
  | ConsoleDebug string
  | ConsoleWarn exn
  | Uncaught exn

type_synonym 'n textFit = "node_ref \<Rightarrow> 'n options \<Rightarrow> shadowRoot \<Rightarrow> exn option \<times> shadowRoot"

text \<open>The element: its properties, its shadow root, the number of \<open>iron-resize\<close> listeners
  registered on it (each one is the class's resize handler), whether the first connect has
  initialised it, the callbacks handed to \<open>this.async\<close> that have not run yet, and the trace
  of calls that left the component.\<close>

record 'n element =
  this :: "'n component"
  shadow :: shadowRoot
  listeners :: nat
  dataEnabled :: bool
  pending :: "callback list"
  trace :: "'n effect list"

text \<open>A statement completes normally (\<open>None\<close>) or abruptly with an exception.\<close>

type_synonym 'n completion = "exn option \<times> 'n element"


subsection \<open>Inherited members\<close>

text \<open>
  The class extends \<open>PolymerElement\<close> with the legacy mixin and \<open>IronResizableBehavior\<close>.
  Neither library is part of the repository. What their members do to the element:
  \<^item> firing \<open>iron-resize\<close> on the element runs every registered listener, and every
    listener the class registers is its resize handler;
  \<^item> the behaviour's \<open>attached\<close> requests resize notifications: it returns at once unless
    \<open>isAttached\<close> is set, and then, when the document is loaded and the element is to be
    notified (the flag \<open>notify\<close>, decided by the page), fires \<open>iron-resize\<close> before it
    returns;
  \<^item> the behaviour's \<open>detached\<close> only unsubscribes;
  \<^item> the inherited \<open>ready\<close> stamps the template and runs the observers of the initialised
    properties, here \<open>_textChanged(text, undefined)\<close>;
  \<^item> a later change of \<open>text\<close> stores the new value and calls the observer with the new
    and the old value;
  \<^item> the legacy mixin's \<open>connectedCallback\<close> runs \<open>ready\<close> on the first connect, sets
    \<open>isAttached\<close> and calls \<open>attached\<close>; its \<open>disconnectedCallback\<close> clears \<open>isAttached\<close> and
    calls \<open>detached\<close>.
\<close>

definition fire_iron_resize :: "('n element \<Rightarrow> 'n element) \<Rightarrow> 'n element \<Rightarrow> 'n element" where
  "fire_iron_resize handler s = (handler ^^ listeners s) s"

definition behavior_attached ::
  "bool \<Rightarrow> ('n element \<Rightarrow> 'n element) \<Rightarrow> 'n element \<Rightarrow> 'n element" where
  "behavior_attached notify handler s =
     (if \<not> isAttached (this s) then s
      else if notify then fire_iron_resize handler s
      else s)"

definition behavior_detached :: "'n element \<Rightarrow> 'n element" where
  "behavior_detached s = s"

definition polymer_ready ::
  "(string \<Rightarrow> string option \<Rightarrow> 'n element \<Rightarrow> 'n element) \<Rightarrow> 'n element \<Rightarrow> 'n element" where
  "polymer_ready observer s = observer (text (this s)) None s"

definition property_set_text ::
  "(string \<Rightarrow> string option \<Rightarrow> 'n element \<Rightarrow> 'n element) \<Rightarrow> string \<Rightarrow> string option
     \<Rightarrow> 'n element \<Rightarrow> 'n element" where
  "property_set_text observer newText oldText s =
     observer newText oldText (s\<lparr>this := (this s)\<lparr>text := newText\<rparr>\<rparr>)"

definition legacy_connectedCallback ::
  "('n element \<Rightarrow> 'n element) \<Rightarrow> ('n element \<Rightarrow> 'n element) \<Rightarrow> 'n element \<Rightarrow> 'n element" where
  "legacy_connectedCallback rdy att s =
     (let s1 = (if dataEnabled s then s else rdy (s\<lparr>dataEnabled := True\<rparr>));
          s2 = s1\<lparr>this := (this s1)\<lparr>isAttached := True\<rparr>\<rparr>
      in att s2)"

definition legacy_disconnectedCallback ::
  "('n element \<Rightarrow> 'n element) \<Rightarrow> 'n element \<Rightarrow> 'n element" where
  "legacy_disconnectedCallback det s = det (s\<lparr>this := (this s)\<lparr>isAttached := False\<rparr>\<rparr>)"

subsection \<open>Scheduling, console and exceptions\<close>

definition async :: "callback \<Rightarrow> 'n element \<Rightarrow> 'n element" where
  "async cb s = s\<lparr>pending := pending s @ [cb]\<rparr>"

definition console_debug :: "string \<Rightarrow> 'n element \<Rightarrow> 'n element" where
  "console_debug msg s = s\<lparr>trace := trace s @ [ConsoleDebug msg]\<rparr>"

definition console_warn :: "exn \<Rightarrow> 'n element \<Rightarrow> 'n element" where
  "console_warn e s = s\<lparr>trace := trace s @ [ConsoleWarn e]\<rparr>"

definition callTextFit :: "'n textFit \<Rightarrow> node_ref \<Rightarrow> 'n options \<Rightarrow> 'n element \<Rightarrow> 'n completion" where
  "callTextFit tf r opts s =
     (case tf r opts (shadow s) of
        (e, d) \<Rightarrow> (e, s\<lparr>shadow := d, trace := trace s @ [TextFit r opts]\<rparr>))"

definition try_catch ::
  "('n element \<Rightarrow> 'n completion) \<Rightarrow> (exn \<Rightarrow> 'n element \<Rightarrow> 'n completion) \<Rightarrow> 'n element \<Rightarrow> 'n completion" where
  "try_catch body handler s =
     (case body s of
        (None, s') \<Rightarrow> (None, s')
      | (Some e, s') \<Rightarrow> handler e s')"

subsection \<open>src/textfit-div.js\<close>

text \<open>
  The members in dependency order (the observer and the resize handler first, since
  \<open>super.attached()\<close> and the inherited \<open>ready\<close> run them). \<open>_textChanged(newText, oldText)\<close>
  is written \<open>textChanged\<close>; \<open>oldText\<close> is \<open>undefined\<close> (\<open>None\<close>) on the observer's first
  run. \<open>connectedCallback\<close> calls \<open>super.connectedCallback()\<close> and then registers a listener
  made by \<open>this.onIronResize.bind(this)\<close>, a new function at every call.
\<close>

definition properties :: "'n::numeral component" where
  "properties =
     \<lparr> text = '''',
       isAttached = False,
       horizontalCenter = False,
       verticalCenter = False,
       multiLine = False,
       detectMultiLine = True,
       minFontSize = 6,
       maxFontSize = 200,
       reProcess = True,
       widthOnly = False,
       manualFire = False,
       alignVertWithFlexbox = False \<rparr>"

definition textChanged :: "string \<Rightarrow> string option \<Rightarrow> 'n element \<Rightarrow> 'n element" where
  "textChanged newText oldText s =
     (if Some newText \<noteq> oldText \<and> \<not> manualFire (this s) then
        let s1 = (case textFitted (shadow s) of
                    Some span \<Rightarrow> s\<lparr>shadow := (shadow s)\<lparr>textFitted := Some newText\<rparr>\<rparr>
                  | None \<Rightarrow> s)
        in async DoFitMe s1
      else s)"

definition onIronResize :: "'n element \<Rightarrow> 'n element" where
  "onIronResize s =
     (if manualFire (this s) then s
      else async DoFitMe s)"

definition attached :: "bool \<Rightarrow> 'n element \<Rightarrow> 'n element" where
  "attached notify s =
     (let s0 = behavior_attached notify onIronResize s;
          s1 = s0\<lparr>this := (this s0)\<lparr>isAttached := True\<rparr>\<rparr>
      in if manualFire (this s1) then s1
         else async DoFitMe s1)"

definition detached :: "'n element \<Rightarrow> 'n element" where
  "detached s =
     (let s0 = behavior_detached s
      in s0\<lparr>this := (this s0)\<lparr>isAttached := False\<rparr>\<rparr>)"

definition connectedCallback :: "bool \<Rightarrow> 'n element \<Rightarrow> 'n element" where
  "connectedCallback notify s =
     (let s1 = legacy_connectedCallback (polymer_ready textChanged) (attached notify) s
      in s1\<lparr>listeners := Suc (listeners s1)\<rparr>)"

definition doFitMe :: "'n textFit \<Rightarrow> 'n element \<Rightarrow> 'n completion" where
  "doFitMe tf s =
     (if \<not> isAttached (this s) then (None, s)
      else if length (fitMe_innerHTML (shadow s)) < 1 then (None, s)
      else if fitMe_clientHeight (shadow s) \<le> 0 \<or> fitMe_clientWidth (shadow s) \<le> 0 then
        (None, console_debug ''textfit-div has no size yet, therefore the text can not be fitted.'' s)
      else
        try_catch
          (callTextFit tf FitMe
             \<lparr> alignHoriz = horizontalCenter (this s),
               alignVert = verticalCenter (this s),
               options.multiLine = component.multiLine (this s),
               options.detectMultiLine = component.detectMultiLine (this s),
               options.minFontSize = component.minFontSize (this s),
               options.maxFontSize = component.maxFontSize (this s),
               options.reProcess = component.reProcess (this s),
               options.widthOnly = component.widthOnly (this s),
               options.alignVertWithFlexbox = component.alignVertWithFlexbox (this s) \<rparr>)
          (\<lambda>e s'. (None, console_warn e s'))
          s)"

subsection \<open>src/unnamed/part_000\<close>

text \<open>
  The second source file declares the same class again; its members are translated
  separately and carry a prime. Its resize handler is named \<open>_onIronResize\<close>. It has no
  \<open>connectedCallback\<close> of its own: \<open>ready\<close> calls \<open>super.ready()\<close> and registers the one
  function \<open>this._onIronResize\<close>, which the element keeps once however often it is added;
  \<open>connected'\<close> is the inherited callback running this \<open>ready\<close> and \<open>attached\<close>.
\<close>

definition properties' :: "'n::numeral component" where
  "properties' =
     \<lparr> text = '''',
       isAttached = False,
       horizontalCenter = False,
       verticalCenter = False,
       multiLine = False,
       detectMultiLine = True,
       minFontSize = 6,
       maxFontSize = 200,
       reProcess = True,
       widthOnly = False,
       manualFire = False,
       alignVertWithFlexbox = False \<rparr>"

definition textChanged' :: "string \<Rightarrow> string option \<Rightarrow> 'n element \<Rightarrow> 'n element" where
  "textChanged' newText oldText s =
     (if Some newText \<noteq> oldText \<and> \<not> manualFire (this s) then
        let s1 = (case textFitted (shadow s) of
                    Some span \<Rightarrow> s\<lparr>shadow := (shadow s)\<lparr>textFitted := Some newText\<rparr>\<rparr>
                  | None \<Rightarrow> s)
        in async DoFitMe s1
      else s)"

definition onIronResize' :: "'n element \<Rightarrow> 'n element" where
  "onIronResize' s =
     (if manualFire (this s) then s
      else async DoFitMe s)"

definition attached' :: "bool \<Rightarrow> 'n element \<Rightarrow> 'n element" where
  "attached' notify s =
     (let s0 = behavior_attached notify onIronResize' s;
          s1 = s0\<lparr>this := (this s0)\<lparr>isAttached := True\<rparr>\<rparr>
      in if manualFire (this s1) then s1
         else async DoFitMe s1)"

definition detached' :: "'n element \<Rightarrow> 'n element" where
  "detached' s =
     (let s0 = behavior_detached s
      in s0\<lparr>this := (this s0)\<lparr>isAttached := False\<rparr>\<rparr>)"

definition ready' :: "'n element \<Rightarrow> 'n element" where
  "ready' s =
     (let s1 = polymer_ready textChanged' s
      in s1\<lparr>listeners := max 1 (listeners s1)\<rparr>)"

definition connected' :: "bool \<Rightarrow> 'n element \<Rightarrow> 'n element" where
  "connected' notify s = legacy_connectedCallback ready' (attached' notify) s"

definition doFitMe' :: "'n textFit \<Rightarrow> 'n element \<Rightarrow> 'n completion" where
  "doFitMe' tf s =
     (if \<not> isAttached (this s) then (None, s)
      else if length (fitMe_innerHTML (shadow s)) < 1 then (None, s)
      else if fitMe_clientHeight (shadow s) \<le> 0 \<or> fitMe_clientWidth (shadow s) \<le> 0 then
        (None, console_debug ''textfit-div has no size yet, therefore the text can not be fitted.'' s)
      else
        try_catch
          (callTextFit tf FitMe
             \<lparr> alignHoriz = horizontalCenter (this s),
               alignVert = verticalCenter (this s),
               options.multiLine = component.multiLine (this s),
               options.detectMultiLine = component.detectMultiLine (this s),
               options.minFontSize = component.minFontSize (this s),
               options.maxFontSize = component.maxFontSize (this s),
               options.reProcess = component.reProcess (this s),
               options.widthOnly = component.widthOnly (this s),
               options.alignVertWithFlexbox = component.alignVertWithFlexbox (this s) \<rparr>)
          (\<lambda>e s'. (None, console_warn e s'))
          s)"

subsection \<open>Events and the microtask queue\<close>

text \<open>
  What the platform does to one element: it connects and disconnects it, it changes
  \<open>text\<close>, an \<open>iron-resize\<close> event reaches the element and runs its listeners, the page may
  call \<open>doFitMe()\<close> itself, layout may change what the shadow root shows, and a microtask
  checkpoint runs the callbacks that were pending when it started, in order. An exception
  that leaves a callback is reported as uncaught. \<open>step\<close> and \<open>run\<close> drive the class of
  src/textfit-div.js, \<open>step'\<close> and \<open>run'\<close> the class of src/unnamed/part_000.
\<close>

datatype event =
    Connect bool
  | Disconnect
  | TextChange string "string option"
  | IronResize
  | ManualFit
  | Layout shadowRoot
  | Tick

definition settle :: "'n completion \<Rightarrow> 'n element" where
  "settle c =
     (case c of
        (None, s) \<Rightarrow> s
      | (Some e, s) \<Rightarrow> s\<lparr>trace := trace s @ [Uncaught e]\<rparr>)"

fun runCallback :: "'n textFit \<Rightarrow> callback \<Rightarrow> 'n element \<Rightarrow> 'n element" where
  "runCallback tf DoFitMe s = settle (doFitMe tf s)"

fun runCallbacks :: "'n textFit \<Rightarrow> callback list \<Rightarrow> 'n element \<Rightarrow> 'n element" where
  "runCallbacks tf [] s = s"
| "runCallbacks tf (cb # cbs) s = runCallbacks tf cbs (runCallback tf cb s)"

definition tick :: "'n textFit \<Rightarrow> 'n element \<Rightarrow> 'n element" where
  "tick tf s = runCallbacks tf (pending s) (s\<lparr>pending := []\<rparr>)"

fun step :: "'n textFit \<Rightarrow> event \<Rightarrow> 'n element \<Rightarrow> 'n element" where
  "step tf (Connect notify) s = connectedCallback notify s"
| "step tf Disconnect s = legacy_disconnectedCallback detached s"
| "step tf (TextChange newText oldText) s = property_set_text textChanged newText oldText s"
| "step tf IronResize s = fire_iron_resize onIronResize s"
| "step tf ManualFit s = settle (doFitMe tf s)"
| "step tf (Layout d) s = s\<lparr>shadow := d\<rparr>"
| "step tf Tick s = tick tf s"

fun run :: "'n textFit \<Rightarrow> event list \<Rightarrow> 'n element \<Rightarrow> 'n element" where
  "run tf [] s = s"
| "run tf (ev # evs) s = run tf evs (step tf ev s)"

fun runCallback' :: "'n textFit \<Rightarrow> callback \<Rightarrow> 'n element \<Rightarrow> 'n element" where
  "runCallback' tf DoFitMe s = settle (doFitMe' tf s)"

fun runCallbacks' :: "'n textFit \<Rightarrow> callback list \<Rightarrow> 'n element \<Rightarrow> 'n element" where
  "runCallbacks' tf [] s = s"
| "runCallbacks' tf (cb # cbs) s = runCallbacks' tf cbs (runCallback' tf cb s)"

definition tick' :: "'n textFit \<Rightarrow> 'n element \<Rightarrow> 'n element" where
  "tick' tf s = runCallbacks' tf (pending s) (s\<lparr>pending := []\<rparr>)"

fun step' :: "'n textFit \<Rightarrow> event \<Rightarrow> 'n element \<Rightarrow> 'n element" where
  "step' tf (Connect notify) s = connected' notify s"
| "step' tf Disconnect s = legacy_disconnectedCallback detached' s"
| "step' tf (TextChange newText oldText) s = property_set_text textChanged' newText oldText s"
| "step' tf IronResize s = fire_iron_resize onIronResize' s"
| "step' tf ManualFit s = settle (doFitMe' tf s)"
| "step' tf (Layout d) s = s\<lparr>shadow := d\<rparr>"
| "step' tf Tick s = tick' tf s"

fun run' :: "'n textFit \<Rightarrow> event list \<Rightarrow> 'n element \<Rightarrow> 'n element" where
  "run' tf [] s = s"
| "run' tf (ev # evs) s = run' tf evs (step' tf ev s)"

subsection \<open>Observing a run\<close>

fun isTextFit :: "'n effect \<Rightarrow> bool" where
  "isTextFit (TextFit r opts) = True"
| "isTextFit (ConsoleDebug msg) = False"
| "isTextFit (ConsoleWarn e) = False"
| "isTextFit (Uncaught e) = False"

definition textFitCalls :: "'n effect list \<Rightarrow> nat" where
  "textFitCalls es = length (filter isTextFit es)"

text \<open>The effects a transition from \<open>s\<close> to \<open>s'\<close> added to the trace.\<close>

definition emitted :: "'n element \<Rightarrow> 'n element \<Rightarrow> 'n effect list" where
  "emitted s s' = drop (length (trace s)) (trace s')"

text \<open>The object literal that \<open>doFitMe\<close> builds, as a function of the properties it reads.\<close>

definition fitOpts :: "'n component \<Rightarrow> 'n options" where
  "fitOpts c =
     \<lparr> alignHoriz = horizontalCenter c,
       alignVert = verticalCenter c,
       options.multiLine = component.multiLine c,
       options.detectMultiLine = component.detectMultiLine c,
       options.minFontSize = component.minFontSize c,
       options.maxFontSize = component.maxFontSize c,
       options.reProcess = component.reProcess c,
       options.widthOnly = component.widthOnly c,
       options.alignVertWithFlexbox = component.alignVertWithFlexbox c \<rparr>"

subsection \<open>Sample instances\<close>

text \<open>A library that wraps the text in a \<open>.textFitted\<close> span and returns, and one that
  throws.\<close>

definition textFit_ok :: "'n textFit" where
  "textFit_ok r opts d = (None, d\<lparr>textFitted := Some (fitMe_innerHTML d)\<rparr>)"

definition textFit_throws :: "'n textFit" where
  "textFit_throws r opts d = (Some (Exn ''boom''), d)"

definition rendered :: shadowRoot where
  "rendered = \<lparr> fitMe_innerHTML = ''Hey!'', fitMe_clientHeight = 100, fitMe_clientWidth = 200,
                textFitted = None \<rparr>"

text \<open>A created element that was never connected, the same element connected, sized and
  fitted once, and a created element with \<open>manualFire\<close> set.\<close>

definition created :: "int element" where
  "created = \<lparr> this = properties\<lparr>text := ''Hey!''\<rparr>, shadow = rendered, listeners = 0,
               dataEnabled = False, pending = [], trace = [] \<rparr>"

definition fitted :: "int element" where
  "fitted = run textFit_ok [Connect True, Tick] created"

definition manual :: "int element" where
  "manual = created\<lparr>this := properties\<lparr>text := ''Hey!'', manualFire := True\<rparr>\<rparr>"

text \<open>The number of handler runs that a list of resize and text-change events causes on an
  element with \<open>k\<close> registered listeners.\<close>

fun handlerRuns :: "nat \<Rightarrow> event list \<Rightarrow> nat" where
  "handlerRuns k [] = 0"
| "handlerRuns k (IronResize # evs) = k + handlerRuns k evs"
| "handlerRuns k (TextChange newText oldText # evs) =
     (if Some newText \<noteq> oldText then 1 else 0) + handlerRuns k evs"
| "handlerRuns k (ev # evs) = handlerRuns k evs"

section \<open>Properties\<close>

subsection \<open>Auxiliary facts\<close>

lemma textFitCalls_append: "textFitCalls (xs @ ys) = textFitCalls xs + textFitCalls ys"
  by (simp add: textFitCalls_def)

lemma textFitCalls_simps:
  "textFitCalls [] = 0"
  "textFitCalls (TextFit r opts # es) = Suc (textFitCalls es)"
  "textFitCalls (ConsoleDebug msg # es) = textFitCalls es"
  "textFitCalls (ConsoleWarn e # es) = textFitCalls es"
  "textFitCalls (Uncaught e # es) = textFitCalls es"
  by (simp_all add: textFitCalls_def)

lemma trace_try_catch_warn:
  "trace (snd (try_catch (callTextFit tf r opts) (\<lambda>e s'. (None, console_warn e s')) s)) =
     trace s @ TextFit r opts # (case fst (tf r opts (shadow s)) of None \<Rightarrow> [] | Some e \<Rightarrow> [ConsoleWarn e])"
  by (simp add: try_catch_def callTextFit_def console_warn_def split: prod.splits option.splits)

lemma doFitMe_alt:
  "doFitMe tf s =
     (if \<not> isAttached (this s) then (None, s)
      else if length (fitMe_innerHTML (shadow s)) < 1 then (None, s)
      else if fitMe_clientHeight (shadow s) \<le> 0 \<or> fitMe_clientWidth (shadow s) \<le> 0 then
        (None, console_debug ''textfit-div has no size yet, therefore the text can not be fitted.'' s)
      else
        try_catch (callTextFit tf FitMe (fitOpts (this s))) (\<lambda>e s'. (None, console_warn e s')) s)"
  unfolding doFitMe_def fitOpts_def by (rule refl)

lemma fst_doFitMe: "fst (doFitMe tf s) = None"
  by (simp add: doFitMe_alt try_catch_def split: prod.splits option.splits)

lemma trace_doFitMe:
  "trace (snd (doFitMe tf s)) = trace s \<or> (\<exists>m. trace (snd (doFitMe tf s)) = trace s @ [ConsoleDebug m])
      \<or> (trace (snd (doFitMe tf s)) = trace s @ [TextFit FitMe (fitOpts (this s))] \<and> fst (tf FitMe (fitOpts (this s)) (shadow s)) = None)
      \<or> (\<exists>e. trace (snd (doFitMe tf s)) = trace s @ [TextFit FitMe (fitOpts (this s)), ConsoleWarn e] \<and> fst (tf FitMe (fitOpts (this s)) (shadow s)) = Some e)"
  by (cases "fst (tf FitMe (fitOpts (this s)) (shadow s))") (simp_all add: doFitMe_alt console_debug_def trace_try_catch_warn)

lemma doFitMe_frame0:
  "this (snd (doFitMe tf s)) = this s"
  "pending (snd (doFitMe tf s)) = pending s"
  "listeners (snd (doFitMe tf s)) = listeners s"
  "dataEnabled (snd (doFitMe tf s)) = dataEnabled s"
  by (simp_all add: doFitMe_alt console_debug_def console_warn_def try_catch_def callTextFit_def
      split: prod.splits option.splits)


lemma fitOpts_fields:
  "alignHoriz (fitOpts c) = horizontalCenter c"
  "alignVert (fitOpts c) = verticalCenter c"
  "options.multiLine (fitOpts c) = component.multiLine c"
  "options.detectMultiLine (fitOpts c) = component.detectMultiLine c"
  "options.minFontSize (fitOpts c) = component.minFontSize c"
  "options.maxFontSize (fitOpts c) = component.maxFontSize c"
  "options.reProcess (fitOpts c) = component.reProcess c"
  "options.widthOnly (fitOpts c) = component.widthOnly c"
  "options.alignVertWithFlexbox (fitOpts c) = component.alignVertWithFlexbox c"
  by (simp_all add: fitOpts_def)

lemma emitted_doFitMe:
  "emitted s (snd (doFitMe tf s)) = [] \<or> (\<exists>m. emitted s (snd (doFitMe tf s)) = [ConsoleDebug m])
      \<or> (emitted s (snd (doFitMe tf s)) = [TextFit FitMe (fitOpts (this s))] \<and> fst (tf FitMe (fitOpts (this s)) (shadow s)) = None)
      \<or> (\<exists>e. emitted s (snd (doFitMe tf s)) = [TextFit FitMe (fitOpts (this s)), ConsoleWarn e] \<and> fst (tf FitMe (fitOpts (this s)) (shadow s)) = Some e)"
  using trace_doFitMe [of tf s] by (auto simp: emitted_def)

lemma settle_doFitMe: "settle (doFitMe tf s) = snd (doFitMe tf s)"
  using fst_doFitMe [of tf s] by (cases "doFitMe tf s") (simp add: settle_def)

lemma onIronResize_alt:
  "onIronResize s = (if manualFire (this s) then s else s\<lparr>pending := pending s @ [DoFitMe]\<rparr>)"
  by (simp add: onIronResize_def async_def)

lemma funpow_onIronResize:
  "(onIronResize ^^ k) s =
     (if manualFire (this s) then s else s\<lparr>pending := pending s @ replicate k DoFitMe\<rparr>)"
proof (induction k)
  case 0
  show ?case by simp
next
  case (Suc k)
  have "(onIronResize ^^ Suc k) s = onIronResize ((onIronResize ^^ k) s)"
    by simp
  also have "\<dots> = onIronResize
      (if manualFire (this s) then s else s\<lparr>pending := pending s @ replicate k DoFitMe\<rparr>)"
    by (simp only: Suc.IH)
  also have "\<dots> =
      (if manualFire (this s) then s else s\<lparr>pending := pending s @ replicate (Suc k) DoFitMe\<rparr>)"
    by (simp add: onIronResize_alt replicate_append_same)
  finally show ?case .
qed

lemma fire_onIronResize:
  "fire_iron_resize onIronResize s =
     (if manualFire (this s) then s
      else s\<lparr>pending := pending s @ replicate (listeners s) DoFitMe\<rparr>)"
  by (simp add: fire_iron_resize_def funpow_onIronResize)

lemma attached_alt:
  "attached notify s =
     (if manualFire (this s) then s\<lparr>this := (this s)\<lparr>isAttached := True\<rparr>\<rparr>
      else s\<lparr>this := (this s)\<lparr>isAttached := True\<rparr>,
             pending := pending s
               @ replicate (if notify \<and> isAttached (this s) then listeners s else 0) DoFitMe
               @ [DoFitMe]\<rparr>)"
  by (simp add: attached_def behavior_attached_def fire_onIronResize async_def Let_def)

lemma detached_alt: "detached s = s\<lparr>this := (this s)\<lparr>isAttached := False\<rparr>\<rparr>"
  by (simp add: detached_def behavior_detached_def)

lemma textChanged_proj:
  "trace (textChanged n old s) = trace s"
  "this (textChanged n old s) = this s"
  "listeners (textChanged n old s) = listeners s"
  "dataEnabled (textChanged n old s) = dataEnabled s"
  "pending (textChanged n old s) =
     (if Some n \<noteq> old \<and> \<not> manualFire (this s) then pending s @ [DoFitMe] else pending s)"
  by (simp_all add: textChanged_def async_def Let_def split: option.splits)

lemma set_text_proj:
  "trace (property_set_text textChanged n old s) = trace s"
  "this (property_set_text textChanged n old s) = (this s)\<lparr>text := n\<rparr>"
  "listeners (property_set_text textChanged n old s) = listeners s"
  "dataEnabled (property_set_text textChanged n old s) = dataEnabled s"
  "pending (property_set_text textChanged n old s) =
     (if Some n \<noteq> old \<and> \<not> manualFire (this s) then pending s @ [DoFitMe] else pending s)"
  by (simp_all add: property_set_text_def textChanged_proj)

lemma onIronResize_proj:
  "trace (onIronResize s) = trace s"
  "this (onIronResize s) = this s"
  "listeners (onIronResize s) = listeners s"
  "dataEnabled (onIronResize s) = dataEnabled s"
  "pending (onIronResize s) = (if manualFire (this s) then pending s else pending s @ [DoFitMe])"
  by (simp_all add: onIronResize_def async_def)

lemma fire_proj:
  "trace (fire_iron_resize onIronResize s) = trace s"
  "this (fire_iron_resize onIronResize s) = this s"
  "listeners (fire_iron_resize onIronResize s) = listeners s"
  "dataEnabled (fire_iron_resize onIronResize s) = dataEnabled s"
  "pending (fire_iron_resize onIronResize s) =
     (if manualFire (this s) then pending s else pending s @ replicate (listeners s) DoFitMe)"
  by (simp_all add: fire_onIronResize)

lemma attached_proj:
  "trace (attached notify s) = trace s"
  "this (attached notify s) = (this s)\<lparr>isAttached := True\<rparr>"
  "listeners (attached notify s) = listeners s"
  "dataEnabled (attached notify s) = dataEnabled s"
  "pending (attached notify s) =
     (if manualFire (this s) then pending s
      else pending s @ replicate (if notify \<and> isAttached (this s) then listeners s else 0) DoFitMe
             @ [DoFitMe])"
  by (simp_all add: attached_alt)

lemma detached_proj:
  "trace (detached s) = trace s"
  "this (detached s) = (this s)\<lparr>isAttached := False\<rparr>"
  "listeners (detached s) = listeners s"
  "dataEnabled (detached s) = dataEnabled s"
  "pending (detached s) = pending s"
  by (simp_all add: detached_alt)

lemma disconnected_proj:
  "trace (legacy_disconnectedCallback detached s) = trace s"
  "this (legacy_disconnectedCallback detached s) = (this s)\<lparr>isAttached := False\<rparr>"
  "listeners (legacy_disconnectedCallback detached s) = listeners s"
  "dataEnabled (legacy_disconnectedCallback detached s) = dataEnabled s"
  "pending (legacy_disconnectedCallback detached s) = pending s"
  by (simp_all add: legacy_disconnectedCallback_def detached_alt)

lemma connectedCallback_proj:
  "trace (connectedCallback notify s) = trace s"
  "this (connectedCallback notify s) = (this s)\<lparr>isAttached := True\<rparr>"
  "listeners (connectedCallback notify s) = Suc (listeners s)"
  "dataEnabled (connectedCallback notify s) = True"
  "pending (connectedCallback notify s) =
     (if manualFire (this s) then pending s
      else pending s @ replicate ((if dataEnabled s then 0 else 1)
                                  + (if notify then listeners s else 0) + 1) DoFitMe)"
  by (simp_all add: connectedCallback_def legacy_connectedCallback_def polymer_ready_def Let_def
      attached_proj textChanged_proj replicate_add replicate_append_same)

lemma settle_frame:
  "this (settle (doFitMe tf s)) = this s"
  "pending (settle (doFitMe tf s)) = pending s"
  "listeners (settle (doFitMe tf s)) = listeners s"
  by (simp_all add: settle_doFitMe doFitMe_frame0)

lemma runCallbacks_frame:
  "this (runCallbacks tf cbs s) = this s \<and> pending (runCallbacks tf cbs s) = pending s
   \<and> listeners (runCallbacks tf cbs s) = listeners s"
proof (induction cbs arbitrary: s)
  case Nil
  show ?case by simp
next
  case (Cons cb cbs)
  show ?case by (cases cb) (simp add: Cons.IH settle_frame)
qed

lemma tick_frame:
  "this (tick tf s) = this s" "pending (tick tf s) = []" "listeners (tick tf s) = listeners s"
  by (simp_all add: tick_def runCallbacks_frame)

lemma textFitCalls_doFitMe:
  "textFitCalls (trace s) \<le> textFitCalls (trace (snd (doFitMe tf s)))
   \<and> textFitCalls (trace (snd (doFitMe tf s))) \<le> Suc (textFitCalls (trace s))"
  using trace_doFitMe [of tf s] by (auto simp: textFitCalls_append textFitCalls_simps)

lemma textFitCalls_runCallbacks:
  "textFitCalls (trace (runCallbacks tf cbs s)) \<le> textFitCalls (trace s) + length cbs"
proof (induction cbs arbitrary: s)
  case Nil
  show ?case by simp
next
  case (Cons cb cbs)
  have "textFitCalls (trace (runCallback tf cb s)) \<le> Suc (textFitCalls (trace s))"
    using textFitCalls_doFitMe [of s tf] by (cases cb) (simp add: settle_doFitMe)
  moreover have "textFitCalls (trace (runCallbacks tf cbs (runCallback tf cb s)))
      \<le> textFitCalls (trace (runCallback tf cb s)) + length cbs"
    by (rule Cons.IH)
  ultimately show ?case by simp
qed

lemma textFitCalls_tick:
  "textFitCalls (trace (tick tf s)) \<le> textFitCalls (trace s) + length (pending s)"
  using textFitCalls_runCallbacks [of tf "pending s" "s\<lparr>pending := []\<rparr>"] by (simp add: tick_def)

lemma tick_single:
  "pending s = [DoFitMe] \<Longrightarrow> tick tf s = snd (doFitMe tf (s\<lparr>pending := []\<rparr>))"
  by (simp add: tick_def settle_doFitMe)

lemma tick_idle: "pending s = [] \<Longrightarrow> trace (tick tf s) = trace s"
  by (simp add: tick_def)

lemma step_manualFire: "manualFire (this (step tf ev s)) = manualFire (this s)"
  by (cases ev)
    (simp_all add: connectedCallback_proj disconnected_proj set_text_proj fire_proj
      settle_frame tick_frame)

lemma manual_step_pending:
  "manualFire (this s) \<Longrightarrow> pending s = [] \<Longrightarrow> pending (step tf ev s) = []"
  by (cases ev)
    (simp_all add: connectedCallback_proj disconnected_proj set_text_proj fire_proj
      settle_frame tick_frame)

lemma manual_step_trace:
  "manualFire (this s) \<Longrightarrow> pending s = [] \<Longrightarrow> ev \<noteq> ManualFit \<Longrightarrow>
     trace (step tf ev s) = trace s"
  by (cases ev)
    (simp_all add: connectedCallback_proj disconnected_proj set_text_proj fire_proj tick_idle)

lemma manual_step_calls:
  "manualFire (this s) \<Longrightarrow> pending s = [] \<Longrightarrow>
     textFitCalls (trace (step tf ev s)) \<le> textFitCalls (trace s) + (if ev = ManualFit then 1 else 0)"
  using textFitCalls_doFitMe [of s tf]
  by (cases ev)
    (simp_all add: connectedCallback_proj disconnected_proj set_text_proj fire_proj tick_idle
      settle_doFitMe)

lemma manual_run:
  "manualFire (this s) \<Longrightarrow> pending s = [] \<Longrightarrow>
     (ManualFit \<notin> set evs \<longrightarrow> trace (run tf evs s) = trace s)
     \<and> textFitCalls (trace (run tf evs s)) \<le> textFitCalls (trace s) + count_list evs ManualFit"
proof (induction evs arbitrary: s)
  case Nil
  show ?case by simp
next
  case (Cons ev evs)
  have mf: "manualFire (this (step tf ev s))"
    using Cons.prems(1) by (simp add: step_manualFire)
  have pe: "pending (step tf ev s) = []"
    using Cons.prems by (rule manual_step_pending)
  note ih = Cons.IH [OF mf pe]
  have tr: "ev \<noteq> ManualFit \<Longrightarrow> trace (step tf ev s) = trace s"
    using Cons.prems by (simp add: manual_step_trace)
  have cnt: "textFitCalls (trace (step tf ev s)) \<le> textFitCalls (trace s) + (if ev = ManualFit then 1 else 0)"
    using Cons.prems by (rule manual_step_calls)
  show ?case
    using ih tr cnt by (auto split: if_splits)
qed

lemma step_isAttached:
  "isAttached (this (step tf ev s)) =
     ((\<exists>b. ev = Connect b) \<or> (ev \<noteq> Disconnect \<and> isAttached (this s)))"
  by (cases ev)
    (simp_all add: connectedCallback_proj disconnected_proj set_text_proj fire_proj
      settle_frame tick_frame)

lemma run_isAttached:
  "isAttached (this (run tf evs s)) \<longleftrightarrow>
     (\<exists>pre b post. evs = pre @ Connect b # post \<and> Disconnect \<notin> set post)
     \<or> (isAttached (this s) \<and> Disconnect \<notin> set evs)"
proof (induction evs arbitrary: s)
  case Nil
  show ?case by simp
next
  case (Cons ev evs)
  have split: "(\<exists>pre b post. ev # evs = pre @ Connect b # post \<and> Disconnect \<notin> set post) \<longleftrightarrow>
      ((\<exists>b. ev = Connect b) \<and> Disconnect \<notin> set evs)
      \<or> (\<exists>pre b post. evs = pre @ Connect b # post \<and> Disconnect \<notin> set post)"
    by (auto simp: Cons_eq_append_conv)
  show ?case
    unfolding split run.simps Cons.IH step_isAttached by auto
qed

lemma doFitMe_detached: "\<not> isAttached (this s) \<Longrightarrow> doFitMe tf s = (None, s)"
  by (simp add: doFitMe_def)

lemma runCallbacks_detached: "\<not> isAttached (this s) \<Longrightarrow> runCallbacks tf cbs s = s"
proof (induction cbs)
  case Nil
  show ?case by simp
next
  case (Cons cb cbs)
  then show ?case by (cases cb) (simp add: doFitMe_detached settle_def)
qed

lemma step_detached_trace:
  "\<not> isAttached (this s) \<Longrightarrow> trace (step tf ev s) = trace s"
  by (cases ev)
    (simp_all add: connectedCallback_proj disconnected_proj set_text_proj fire_proj
      doFitMe_detached settle_def tick_def runCallbacks_detached)

lemma run_detached_trace:
  "\<not> isAttached (this s) \<Longrightarrow> \<forall>b. Connect b \<notin> set evs \<Longrightarrow> trace (run tf evs s) = trace s"
proof (induction evs arbitrary: s)
  case Nil
  show ?case by simp
next
  case (Cons ev evs)
  have "\<not> isAttached (this (step tf ev s))"
    using Cons.prems by (auto simp: step_isAttached)
  moreover have "\<forall>b. Connect b \<notin> set evs"
    using Cons.prems by simp
  ultimately have "trace (run tf evs (step tf ev s)) = trace (step tf ev s)"
    by (rule Cons.IH)
  then show ?case
    using Cons.prems(1) by (simp add: step_detached_trace)
qed

lemma step_extends_pending:
  "ev \<noteq> Tick \<Longrightarrow> \<exists>new. pending (step tf ev s) = pending s @ new"
  by (cases ev)
    (simp_all add: connectedCallback_proj disconnected_proj set_text_proj fire_proj settle_frame)

lemma schedule_step:
  assumes "ev = IronResize \<or> (\<exists>n old. ev = TextChange n old)"
  shows "trace (step tf ev s) = trace s"
    and "listeners (step tf ev s) = listeners s"
    and "manualFire (this s) \<Longrightarrow> pending (step tf ev s) = pending s"
    and "\<not> manualFire (this s) \<Longrightarrow>
           pending (step tf ev s) = pending s @ replicate (handlerRuns (listeners s) [ev]) DoFitMe"
  using assms by (auto simp: set_text_proj fire_proj)

lemma handlerRuns_Cons:
  "ev = IronResize \<or> (\<exists>n old. ev = TextChange n old) \<Longrightarrow>
     handlerRuns k (ev # evs) = handlerRuns k [ev] + handlerRuns k evs"
  by auto

lemma schedule_run:
  "\<forall>ev\<in>set evs. ev = IronResize \<or> (\<exists>n old. ev = TextChange n old) \<Longrightarrow>
     trace (run tf evs s) = trace s
     \<and> listeners (run tf evs s) = listeners s
     \<and> (manualFire (this s) \<longrightarrow> pending (run tf evs s) = pending s)
     \<and> (\<not> manualFire (this s) \<longrightarrow>
          pending (run tf evs s) = pending s @ replicate (handlerRuns (listeners s) evs) DoFitMe)"
proof (induction evs arbitrary: s)
  case Nil
  show ?case by simp
next
  case (Cons ev evs)
  let ?s = "step tf ev s"
  have ev: "ev = IronResize \<or> (\<exists>n old. ev = TextChange n old)"
    using Cons.prems by simp
  have rest: "\<forall>ev\<in>set evs. ev = IronResize \<or> (\<exists>n old. ev = TextChange n old)"
    using Cons.prems by simp
  note ih = Cons.IH [OF rest, of ?s]
  note st = schedule_step [OF ev, where tf = tf and s = s]
  have mf: "manualFire (this ?s) = manualFire (this s)"
    by (rule step_manualFire)
  have tr: "trace (run tf (ev # evs) s) = trace s"
    using ih st(1) by simp
  have li: "listeners (run tf (ev # evs) s) = listeners s"
    using ih st(2) by simp
  have p1: "manualFire (this s) \<longrightarrow> pending (run tf (ev # evs) s) = pending s"
    using ih st(3) mf by simp
  have p2: "\<not> manualFire (this s) \<longrightarrow>
      pending (run tf (ev # evs) s) = pending s @ replicate (handlerRuns (listeners s) (ev # evs)) DoFitMe"
  proof
    assume nm: "\<not> manualFire (this s)"
    have "pending (run tf (ev # evs) s) =
        pending ?s @ replicate (handlerRuns (listeners ?s) evs) DoFitMe"
      using ih nm mf by simp
    also have "\<dots> = pending s @ replicate (handlerRuns (listeners s) [ev]) DoFitMe
        @ replicate (handlerRuns (listeners s) evs) DoFitMe"
      using st(2) st(4) [OF nm] by simp
    also have "\<dots> = pending s @ replicate (handlerRuns (listeners s) (ev # evs)) DoFitMe"
      unfolding handlerRuns_Cons [OF ev, of "listeners s" evs] by (simp add: replicate_add)
    finally show "pending (run tf (ev # evs) s) =
        pending s @ replicate (handlerRuns (listeners s) (ev # evs)) DoFitMe" .
  qed
  show ?case using tr li p1 p2 by blast
qed

lemma created_facts:
  "\<not> isAttached (this created)" "\<not> manualFire (this created)" "pending created = []"
  "listeners created = 0" "\<not> dataEnabled created" "textFitted (shadow created) = None"
  "trace created = []"
  by code_simp+

lemma fitted_facts:
  "isAttached (this fitted)" "\<not> manualFire (this fitted)" "pending fitted = []"
  "listeners fitted = 1" "dataEnabled fitted" "textFitted (shadow fitted) \<noteq> None"
  "\<not> length (fitMe_innerHTML (shadow fitted)) < 1"
  "\<not> fitMe_clientHeight (shadow fitted) \<le> 0" "\<not> fitMe_clientWidth (shadow fitted) \<le> 0"
  by code_simp+

lemma manual_facts: "manualFire (this manual)" "pending manual = []" "trace manual = []"
  by code_simp+

lemma primed_members:
  "(textChanged' :: string \<Rightarrow> string option \<Rightarrow> 'n element \<Rightarrow> 'n element) = textChanged"
  "(onIronResize' :: 'n element \<Rightarrow> 'n element) = onIronResize"
  "(attached' :: bool \<Rightarrow> 'n element \<Rightarrow> 'n element) = attached"
  "(detached' :: 'n element \<Rightarrow> 'n element) = detached"
  "(doFitMe' :: 'n textFit \<Rightarrow> 'n element \<Rightarrow> 'n completion) = doFitMe"
proof -
  show tc: "(textChanged' :: string \<Rightarrow> string option \<Rightarrow> 'n element \<Rightarrow> 'n element) = textChanged"
    by (intro ext) (simp only: textChanged'_def textChanged_def)
  show ir: "(onIronResize' :: 'n element \<Rightarrow> 'n element) = onIronResize"
    by (intro ext) (simp only: onIronResize'_def onIronResize_def)
  show "(attached' :: bool \<Rightarrow> 'n element \<Rightarrow> 'n element) = attached"
    by (intro ext) (simp only: attached'_def attached_def ir)
  show "(detached' :: 'n element \<Rightarrow> 'n element) = detached"
    by (intro ext) (simp only: detached'_def detached_def)
  show "(doFitMe' :: 'n textFit \<Rightarrow> 'n element \<Rightarrow> 'n completion) = doFitMe"
    by (intro ext) (simp only: doFitMe'_def doFitMe_def)
qed

lemma runCallbacks'_eq: "runCallbacks' tf cbs s = runCallbacks tf cbs s"
proof (induction cbs arbitrary: s)
  case Nil
  show ?case by simp
next
  case (Cons cb cbs)
  show ?case by (cases cb) (simp add: Cons.IH primed_members)
qed

lemma step'_eq: "\<forall>b. ev \<noteq> Connect b \<Longrightarrow> step' tf ev s = step tf ev s"
  by (cases ev) (auto simp: primed_members tick'_def tick_def runCallbacks'_eq)

lemma textChanged_alt:
  "textChanged n old s =
     (if Some n \<noteq> old \<and> \<not> manualFire (this s) then
        s\<lparr>shadow := (if textFitted (shadow s) = None then shadow s
                       else (shadow s)\<lparr>textFitted := Some n\<rparr>),
          pending := pending s @ [DoFitMe]\<rparr>
      else s)"
  by (simp add: textChanged_def async_def Let_def split: option.splits)

lemma connectedCallback_fresh:
  "\<not> dataEnabled s \<Longrightarrow> listeners s = 0 \<Longrightarrow>
     connectedCallback notify s =
       (if manualFire (this s) then
          s\<lparr>this := (this s)\<lparr>isAttached := True\<rparr>, listeners := 1, dataEnabled := True\<rparr>
        else
          s\<lparr>this := (this s)\<lparr>isAttached := True\<rparr>,
            shadow := (if textFitted (shadow s) = None then shadow s
                       else (shadow s)\<lparr>textFitted := Some (text (this s))\<rparr>),
            listeners := 1, dataEnabled := True,
            pending := pending s @ [DoFitMe, DoFitMe]\<rparr>)"
  by (simp add: connectedCallback_def legacy_connectedCallback_def polymer_ready_def Let_def
      textChanged_alt attached_alt)

lemma connected'_fresh:
  "\<not> dataEnabled s \<Longrightarrow> listeners s = 0 \<Longrightarrow>
     connected' notify s =
       (if manualFire (this s) then
          s\<lparr>this := (this s)\<lparr>isAttached := True\<rparr>, listeners := 1, dataEnabled := True\<rparr>
        else
          s\<lparr>this := (this s)\<lparr>isAttached := True\<rparr>,
            shadow := (if textFitted (shadow s) = None then shadow s
                       else (shadow s)\<lparr>textFitted := Some (text (this s))\<rparr>),
            listeners := 1, dataEnabled := True,
            pending := pending s @ [DoFitMe, DoFitMe] @ (if notify then [DoFitMe] else [])\<rparr>)"
  by (simp add: connected'_def legacy_connectedCallback_def ready'_def polymer_ready_def Let_def
      primed_members textChanged_alt attached_alt)

lemma connected'_vs_connectedCallback:
  "\<not> dataEnabled s \<Longrightarrow> listeners s = 0 \<Longrightarrow>
     connected' notify s =
       (connectedCallback notify s)
         \<lparr>pending := pending (connectedCallback notify s)
            @ (if notify \<and> \<not> manualFire (this s) then [DoFitMe] else [])\<rparr>"
  by (simp add: connected'_fresh connectedCallback_fresh)

lemma connected'_proj:
  "trace (connected' notify s) = trace s"
  "this (connected' notify s) = (this s)\<lparr>isAttached := True\<rparr>"
  "manualFire (this s) \<Longrightarrow> pending (connected' notify s) = pending s"
  "\<exists>new. pending (connected' notify s) = pending s @ new"
  by (simp_all add: connected'_def legacy_connectedCallback_def ready'_def polymer_ready_def Let_def
      primed_members attached_proj textChanged_proj)

lemma run'_eq:
  "\<forall>ev\<in>set evs. \<forall>b. ev \<noteq> Connect b \<Longrightarrow> run' tf evs s = run tf evs s"
  by (induction evs arbitrary: s) (simp_all add: step'_eq)

lemma step'_this:
  "this s' = this s \<Longrightarrow> this (step' tf ev s') = this (step tf ev s)"
  by (cases ev)
    (simp_all add: primed_members tick'_def runCallbacks'_eq connected'_proj connectedCallback_proj
      disconnected_proj set_text_proj fire_proj settle_frame runCallbacks_frame tick_frame)

lemma run'_this:
  "this s' = this s \<Longrightarrow> this (run' tf evs s') = this (run tf evs s)"
proof (induction evs arbitrary: s s')
  case Nil
  then show ?case by simp
next
  case (Cons ev evs)
  have "this (step' tf ev s') = this (step tf ev s)"
    using Cons.prems by (rule step'_this)
  then show ?case
    by (simp add: Cons.IH)
qed

lemma step'_extends_pending:
  "ev \<noteq> Tick \<Longrightarrow> \<exists>new. pending (step' tf ev s) = pending s @ new"
proof (cases "\<exists>b. ev = Connect b")
  case True
  then show ?thesis
    using connected'_proj(4) by auto
next
  case False
  assume "ev \<noteq> Tick"
  then show ?thesis
    using False step_extends_pending [of ev tf s] by (simp add: step'_eq)
qed

subsection \<open>The fitting call\<close>

text \<open>
  C1. A call of \<open>doFitMe\<close> returns without calling \<open>textFit\<close> when \<open>isAttached\<close> is false, or
  the \<open>innerHTML\<close> of \<open>fitMe\<close> has length below 1, or its \<open>clientHeight\<close> or \<open>clientWidth\<close> is
  at most 0; in every other state it calls \<open>textFit\<close> exactly once.
\<close>

theorem doFitMe_guarded_call:
  "(\<not> isAttached (this s) \<or> length (fitMe_innerHTML (shadow s)) < 1
      \<or> fitMe_clientHeight (shadow s) \<le> 0 \<or> fitMe_clientWidth (shadow s) \<le> 0
     \<longrightarrow> textFitCalls (trace (snd (doFitMe tf s))) = textFitCalls (trace s))
   \<and> (\<not> (\<not> isAttached (this s) \<or> length (fitMe_innerHTML (shadow s)) < 1
      \<or> fitMe_clientHeight (shadow s) \<le> 0 \<or> fitMe_clientWidth (shadow s) \<le> 0)
     \<longrightarrow> textFitCalls (trace (snd (doFitMe tf s))) = textFitCalls (trace s) + 1)"
  by (auto simp: doFitMe_def console_debug_def trace_try_catch_warn textFitCalls_append
      textFitCalls_simps split: option.splits)

theorem doFitMe_guarded_call_witness:
  "\<not> isAttached (this created)
   \<and> textFitCalls (trace (snd (doFitMe textFit_ok created))) = textFitCalls (trace created)
   \<and> isAttached (this fitted)
   \<and> \<not> length (fitMe_innerHTML (shadow fitted)) < 1
   \<and> \<not> fitMe_clientHeight (shadow fitted) \<le> 0
   \<and> \<not> fitMe_clientWidth (shadow fitted) \<le> 0
   \<and> textFitCalls (trace (snd (doFitMe textFit_ok fitted))) = textFitCalls (trace fitted) + 1"
  using doFitMe_guarded_call [of created textFit_ok] doFitMe_guarded_call [of fitted textFit_ok]
    created_facts(1) fitted_facts(1,7,8,9)
  by blast

text \<open>
  C2. \<open>doFitMe\<close> always completes normally, so nothing reaches its caller or the
  uncaught-error report. When the call of \<open>textFit\<close> it made throws \<open>e\<close>, the call leaves
  exactly that one \<open>textFit\<close> invocation followed by \<open>console.warn(e)\<close>: the exception is
  caught, logged, and the library is not called a second time.
\<close>

theorem doFitMe_catches:
  "fst (doFitMe tf s) = None
   \<and> settle (doFitMe tf s) = snd (doFitMe tf s)
   \<and> (\<forall>r opts e. TextFit r opts \<in> set (emitted s (snd (doFitMe tf s)))
          \<and> fst (tf r opts (shadow s)) = Some e
        \<longrightarrow> emitted s (snd (doFitMe tf s)) = [TextFit r opts, ConsoleWarn e])"
proof -
  have "\<forall>r opts e. TextFit r opts \<in> set (emitted s (snd (doFitMe tf s)))
          \<and> fst (tf r opts (shadow s)) = Some e
        \<longrightarrow> emitted s (snd (doFitMe tf s)) = [TextFit r opts, ConsoleWarn e]"
    using emitted_doFitMe [of s tf] by auto
  then show ?thesis
    using fst_doFitMe [of tf s] settle_doFitMe [of tf s] by blast
qed

theorem doFitMe_catches_witness:
  "TextFit FitMe (fitOpts (this fitted))
      \<in> set (emitted fitted (snd (doFitMe textFit_throws fitted)))
   \<and> fst (textFit_throws FitMe (fitOpts (this fitted)) (shadow fitted)) = Some (Exn ''boom'')
   \<and> fst (doFitMe textFit_throws fitted) = None
   \<and> emitted fitted (snd (doFitMe textFit_throws fitted)) =
       [TextFit FitMe (fitOpts (this fitted)), ConsoleWarn (Exn ''boom'')]"
proof -
  have called: "TextFit FitMe (fitOpts (this fitted))
      \<in> set (emitted fitted (snd (doFitMe textFit_throws fitted)))"
    by code_simp
  have thrown: "fst (textFit_throws FitMe (fitOpts (this fitted)) (shadow fitted)) = Some (Exn ''boom'')"
    by (simp add: textFit_throws_def)
  show ?thesis
    using doFitMe_catches [of textFit_throws fitted] called thrown by blast
qed

text \<open>
  C4. Every invocation of \<open>textFit\<close> made by \<open>doFitMe\<close> passes the reference to the
  \<open>fitMe\<close> element and an options record whose nine fields are the values of
  \<open>horizontalCenter\<close>, \<open>verticalCenter\<close>, \<open>multiLine\<close>, \<open>detectMultiLine\<close>,
  \<open>minFontSize\<close>, \<open>maxFontSize\<close>, \<open>reProcess\<close>, \<open>widthOnly\<close> and
  \<open>alignVertWithFlexbox\<close> at the time of the call, unchanged.
\<close>

theorem doFitMe_passes_properties:
  "\<forall>r opts. TextFit r opts \<in> set (emitted s (snd (doFitMe tf s))) \<longrightarrow>
     r = FitMe
     \<and> alignHoriz opts = horizontalCenter (this s)
     \<and> alignVert opts = verticalCenter (this s)
     \<and> options.multiLine opts = component.multiLine (this s)
     \<and> options.detectMultiLine opts = component.detectMultiLine (this s)
     \<and> options.minFontSize opts = component.minFontSize (this s)
     \<and> options.maxFontSize opts = component.maxFontSize (this s)
     \<and> options.reProcess opts = component.reProcess (this s)
     \<and> options.widthOnly opts = component.widthOnly (this s)
     \<and> options.alignVertWithFlexbox opts = component.alignVertWithFlexbox (this s)"
proof (intro allI impI)
  fix r opts
  assume "TextFit r opts \<in> set (emitted s (snd (doFitMe tf s)))"
  then have "r = FitMe \<and> opts = fitOpts (this s)"
    using emitted_doFitMe [of s tf] by auto
  then show "r = FitMe
     \<and> alignHoriz opts = horizontalCenter (this s)
     \<and> alignVert opts = verticalCenter (this s)
     \<and> options.multiLine opts = component.multiLine (this s)
     \<and> options.detectMultiLine opts = component.detectMultiLine (this s)
     \<and> options.minFontSize opts = component.minFontSize (this s)
     \<and> options.maxFontSize opts = component.maxFontSize (this s)
     \<and> options.reProcess opts = component.reProcess (this s)
     \<and> options.widthOnly opts = component.widthOnly (this s)
     \<and> options.alignVertWithFlexbox opts = component.alignVertWithFlexbox (this s)"
    by (simp add: fitOpts_fields)
qed

theorem doFitMe_passes_properties_witness:
  "TextFit FitMe (fitOpts (this fitted))
      \<in> set (emitted fitted (snd (doFitMe textFit_ok fitted)))
   \<and> options.minFontSize (fitOpts (this fitted)) = 6
   \<and> options.maxFontSize (fitOpts (this fitted)) = 200
   \<and> options.detectMultiLine (fitOpts (this fitted))
   \<and> \<not> alignHoriz (fitOpts (this fitted))"
proof -
  have called: "TextFit FitMe (fitOpts (this fitted))
      \<in> set (emitted fitted (snd (doFitMe textFit_ok fitted)))"
    by code_simp
  have props: "component.minFontSize (this fitted) = 6" "component.maxFontSize (this fitted) = 200"
    "component.detectMultiLine (this fitted)" "\<not> horizontalCenter (this fitted)"
    by code_simp+
  have "options.minFontSize (fitOpts (this fitted)) = component.minFontSize (this fitted)
      \<and> options.maxFontSize (fitOpts (this fitted)) = component.maxFontSize (this fitted)
      \<and> options.detectMultiLine (fitOpts (this fitted)) = component.detectMultiLine (this fitted)
      \<and> alignHoriz (fitOpts (this fitted)) = horizontalCenter (this fitted)"
    using doFitMe_passes_properties [of fitted textFit_ok] called by blast
  then show ?thesis
    using called props by simp
qed

text \<open>
  C7. \<open>doFitMe\<close> leaves all twelve properties of the component as they were, whatever
  \<open>textFit\<close> does to the rendered subtree and whether or not it throws.
\<close>

theorem doFitMe_frame:
  "this (snd (doFitMe tf s)) = this s"
  by (simp add: doFitMe_frame0)

subsection \<open>Handlers and scheduling\<close>

text \<open>
  C5. \<open>attached\<close> (with the resize notification that \<open>super.attached()\<close> may fire into the
  registered listeners), the whole connect of either class, \<open>_textChanged\<close>, the resize handler
  and the dispatch of an \<open>iron-resize\<close> event never call \<open>textFit\<close> themselves: each leaves
  the trace as it was. With \<open>manualFire\<close> false they only append \<open>doFitMe\<close> callbacks to the
  pending list: the resize handler one, \<open>_textChanged\<close> one when the text differs, and
  \<open>attached\<close> one for every listener that the notification ran plus one of its own. The
  fitting calls are made by the later checkpoint, which runs \<open>doFitMe\<close> once for each of
  these callbacks.
\<close>

theorem handlers_defer:
  "trace (attached notify s) = trace s
   \<and> trace (connectedCallback notify s) = trace s
   \<and> trace (connected' notify s) = trace s
   \<and> trace (textChanged n old s) = trace s
   \<and> trace (onIronResize s) = trace s
   \<and> trace (fire_iron_resize onIronResize s) = trace s
   \<and> (\<not> manualFire (this s) \<longrightarrow>
        pending (attached notify s) =
          pending s @ replicate (if notify \<and> isAttached (this s) then listeners s else 0) DoFitMe
            @ [DoFitMe]
        \<and> pending (onIronResize s) = pending s @ [DoFitMe]
        \<and> (Some n \<noteq> old \<longrightarrow> pending (textChanged n old s) = pending s @ [DoFitMe]))
   \<and> (\<not> manualFire (this s) \<and> pending s = [] \<longrightarrow>
        tick tf (attached notify s) =
          runCallbacks tf
            (replicate (Suc (if notify \<and> isAttached (this s) then listeners s else 0)) DoFitMe)
            ((attached notify s)\<lparr>pending := []\<rparr>)
        \<and> tick tf (onIronResize s) = snd (doFitMe tf ((onIronResize s)\<lparr>pending := []\<rparr>))
        \<and> (Some n \<noteq> old \<longrightarrow>
             tick tf (textChanged n old s) = snd (doFitMe tf ((textChanged n old s)\<lparr>pending := []\<rparr>))))"
proof -
  have "\<not> manualFire (this s) \<and> pending s = [] \<longrightarrow>
        tick tf (attached notify s) =
          runCallbacks tf
            (replicate (Suc (if notify \<and> isAttached (this s) then listeners s else 0)) DoFitMe)
            ((attached notify s)\<lparr>pending := []\<rparr>)"
    by (simp add: tick_def attached_proj replicate_append_same)
  moreover have "\<not> manualFire (this s) \<and> pending s = [] \<longrightarrow>
        tick tf (onIronResize s) = snd (doFitMe tf ((onIronResize s)\<lparr>pending := []\<rparr>))
        \<and> (Some n \<noteq> old \<longrightarrow>
             tick tf (textChanged n old s) = snd (doFitMe tf ((textChanged n old s)\<lparr>pending := []\<rparr>)))"
    by (simp add: onIronResize_proj textChanged_proj tick_single)
  ultimately show ?thesis
    by (simp add: attached_proj connectedCallback_proj connected'_proj textChanged_proj
        onIronResize_proj fire_proj)
qed

theorem handlers_defer_witness:
  "\<not> manualFire (this fitted) \<and> pending fitted = []
   \<and> trace (attached True fitted) = trace fitted
   \<and> pending (attached True fitted) = [DoFitMe, DoFitMe]
   \<and> pending (onIronResize fitted) = [DoFitMe]
   \<and> pending (textChanged ''Ho'' (Some ''Hey!'') fitted) = [DoFitMe]
   \<and> tick textFit_ok (onIronResize fitted) =
       snd (doFitMe textFit_ok ((onIronResize fitted)\<lparr>pending := []\<rparr>))"
proof -
  have d: "Some ''Ho'' \<noteq> Some ''Hey!''"
    by simp
  show ?thesis
    using handlers_defer [of True fitted "''Ho''" "Some ''Hey!''" textFit_ok]
      fitted_facts(1,2,3,4) d
    by simp
qed

text \<open>
  C9. \<open>_textChanged(newText, oldText)\<close> schedules a callback only when
  \<open>newText !== oldText\<close> and \<open>manualFire\<close> is false. In that case it appends one \<open>doFitMe\<close>
  callback and calls nothing yet; if a \<open>.textFitted\<close> element exists its \<open>innerHTML\<close> is
  \<open>newText\<close> in the state the callback will run in, and otherwise the shadow root is
  unchanged. When \<open>newText\<close> equals \<open>oldText\<close> the whole state is unchanged.
\<close>

theorem textChanged_behaviour:
  "(pending (textChanged n old s) \<noteq> pending s \<longrightarrow> Some n \<noteq> old \<and> \<not> manualFire (this s))
   \<and> (Some n \<noteq> old \<and> \<not> manualFire (this s) \<longrightarrow>
        pending (textChanged n old s) = pending s @ [DoFitMe]
        \<and> trace (textChanged n old s) = trace s
        \<and> (textFitted (shadow s) \<noteq> None \<longrightarrow> textFitted (shadow (textChanged n old s)) = Some n)
        \<and> (textFitted (shadow s) = None \<longrightarrow> shadow (textChanged n old s) = shadow s))
   \<and> (Some n = old \<longrightarrow> textChanged n old s = s)"
  by (auto simp: textChanged_def async_def Let_def split: option.splits)

theorem textChanged_behaviour_witness:
  "Some ''Ho'' \<noteq> Some ''Hey!'' \<and> \<not> manualFire (this fitted) \<and> textFitted (shadow fitted) \<noteq> None
   \<and> textFitted (shadow (textChanged ''Ho'' (Some ''Hey!'') fitted)) = Some ''Ho''
   \<and> pending (textChanged ''Ho'' (Some ''Hey!'') fitted) = [DoFitMe]
   \<and> pending (textChanged ''Ho'' (Some ''Hey!'') fitted) \<noteq> pending fitted
   \<and> textFitted (shadow created) = None
   \<and> shadow (textChanged ''Ho'' (Some ''Hey!'') created) = shadow created
   \<and> Some ''Hey!'' = Some ''Hey!''
   \<and> textChanged ''Hey!'' (Some ''Hey!'') fitted = fitted"
proof -
  have d: "Some ''Ho'' \<noteq> Some ''Hey!''"
    by simp
  note m = fitted_facts(2) and sp = fitted_facts(6) and p = fitted_facts(3)
  note m' = created_facts(2) and sp' = created_facts(6)
  have a: "textFitted (shadow (textChanged ''Ho'' (Some ''Hey!'') fitted)) = Some ''Ho''
      \<and> pending (textChanged ''Ho'' (Some ''Hey!'') fitted) = pending fitted @ [DoFitMe]"
    using textChanged_behaviour [of "''Ho''" "Some ''Hey!''" fitted] d m sp by blast
  have b: "shadow (textChanged ''Ho'' (Some ''Hey!'') created) = shadow created"
    using textChanged_behaviour [of "''Ho''" "Some ''Hey!''" created] d m' sp' by blast
  have c: "textChanged ''Hey!'' (Some ''Hey!'') fitted = fitted"
    using textChanged_behaviour [of "''Hey!''" "Some ''Hey!''" fitted] by blast
  show ?thesis
    using a b c d m sp sp' unfolding p by simp
qed

text \<open>
  C8. With \<open>manualFire\<close> true, none of \<open>attached\<close>, \<open>_textChanged\<close> and the resize handler
  schedules anything, and neither do the connect of either class and the dispatch of an
  \<open>iron-resize\<close> event. Hence, from a state with nothing pending, a run without a manual
  \<open>doFitMe()\<close> call leaves the trace untouched, and any run makes at most as many
  \<open>textFit\<close> calls as it has manual calls.
\<close>

theorem manualFire_no_automatic_fit:
  "manualFire (this s) \<Longrightarrow>
     pending (attached notify s) = pending s
     \<and> pending (textChanged n old s) = pending s
     \<and> pending (onIronResize s) = pending s
     \<and> pending (connectedCallback notify s) = pending s
     \<and> pending (connected' notify s) = pending s
     \<and> pending (fire_iron_resize onIronResize s) = pending s
     \<and> (pending s = [] \<and> ManualFit \<notin> set evs \<longrightarrow> trace (run tf evs s) = trace s)
     \<and> (pending s = [] \<longrightarrow>
          textFitCalls (trace (run tf evs s)) \<le> textFitCalls (trace s) + count_list evs ManualFit)"
  using manual_run [of s evs tf]
  by (simp add: attached_proj textChanged_proj onIronResize_proj connectedCallback_proj
      connected'_proj fire_proj)

theorem manualFire_no_automatic_fit_witness:
  "manualFire (this manual) \<and> pending manual = []
   \<and> ManualFit \<notin> set [Connect True, TextChange ''Ho'' (Some ''Hey!''), IronResize, Tick]
   \<and> trace (run textFit_ok [Connect True, TextChange ''Ho'' (Some ''Hey!''), IronResize, Tick] manual) = []
   \<and> pending (onIronResize manual) = []"
proof -
  let ?evs = "[Connect True, TextChange ''Ho'' (Some ''Hey!''), IronResize, Tick]"
  have n: "ManualFit \<notin> set ?evs"
    by simp
  have "trace (run textFit_ok ?evs manual) = trace manual
      \<and> pending (onIronResize manual) = pending manual"
    using manualFire_no_automatic_fit
      [OF manual_facts(1), where n = "''Ho''" and old = "Some ''Hey!''" and evs = ?evs and tf = textFit_ok]
      manual_facts(2) n by blast
  then show ?thesis
    using manual_facts n by simp
qed

text \<open>
  C3, as stated, fails: resize and text-change events are not coalesced. On an element
  that was connected and fitted once, two \<open>iron-resize\<close> events delivered before the
  checkpoint leave two callbacks pending, and the checkpoint calls \<open>textFit\<close> twice.
\<close>

theorem resize_events_not_coalesced:
  "\<not> textFitCalls (emitted fitted (run textFit_ok [IronResize, IronResize, Tick] fitted)) \<le> 1"
  by code_simp

text \<open>
  C3, amended. Resize and text-change events delivered before the checkpoint are deferred
  but not debounced. They call nothing themselves. With \<open>manualFire\<close> true they schedule
  nothing; otherwise every run of the resize handler (an \<open>iron-resize\<close> event runs it once
  for each listener registered on the element) and every \<open>_textChanged\<close> call with
  changed text appends a \<open>doFitMe\<close> callback of its own, and none is merged with another.
  The checkpoint then calls \<open>textFit\<close> at most once for each pending callback. On these
  events both classes act alike.
\<close>

theorem events_schedule_separately:
  "\<forall>ev\<in>set evs. ev = IronResize \<or> (\<exists>n old. ev = TextChange n old) \<Longrightarrow>
     trace (run tf evs s) = trace s
     \<and> (manualFire (this s) \<longrightarrow> pending (run tf evs s) = pending s)
     \<and> (\<not> manualFire (this s) \<longrightarrow>
          pending (run tf evs s) = pending s @ replicate (handlerRuns (listeners s) evs) DoFitMe)
     \<and> textFitCalls (trace (tick tf (run tf evs s)))
          \<le> textFitCalls (trace s) + length (pending s) + handlerRuns (listeners s) evs
     \<and> run' tf evs s = run tf evs s"
proof -
  assume a: "\<forall>ev\<in>set evs. ev = IronResize \<or> (\<exists>n old. ev = TextChange n old)"
  have same: "run' tf evs s = run tf evs s"
    using a by (intro run'_eq) auto
  note r = schedule_run [OF a, of tf s]
  have len: "length (pending (run tf evs s)) \<le> length (pending s) + handlerRuns (listeners s) evs"
    using r by (cases "manualFire (this s)") simp_all
  have "textFitCalls (trace (tick tf (run tf evs s)))
      \<le> textFitCalls (trace (run tf evs s)) + length (pending (run tf evs s))"
    by (rule textFitCalls_tick)
  then have "textFitCalls (trace (tick tf (run tf evs s)))
      \<le> textFitCalls (trace s) + length (pending s) + handlerRuns (listeners s) evs"
    using r len by simp
  then show ?thesis using r same by blast
qed

theorem events_schedule_separately_witness:
  "\<not> manualFire (this fitted)
   \<and> trace (run textFit_ok [IronResize, TextChange ''Ho'' (Some ''Hey!'')] fitted) = trace fitted
   \<and> pending (run textFit_ok [IronResize, TextChange ''Ho'' (Some ''Hey!'')] fitted) = [DoFitMe, DoFitMe]"
proof -
  let ?evs = "[IronResize, TextChange ''Ho'' (Some ''Hey!'')]"
  have h: "\<forall>ev\<in>set ?evs. ev = IronResize \<or> (\<exists>n old. ev = TextChange n old)"
    by simp
  have "trace (run textFit_ok ?evs fitted) = trace fitted
      \<and> pending (run textFit_ok ?evs fitted)
          = pending fitted @ replicate (handlerRuns (listeners fitted) ?evs) DoFitMe"
    using events_schedule_separately [OF h, of textFit_ok fitted] fitted_facts(2) by blast
  then have "trace (run textFit_ok ?evs fitted) = trace fitted
      \<and> pending (run textFit_ok ?evs fitted) = [DoFitMe, DoFitMe]"
    unfolding fitted_facts(3,4) by (simp add: numeral_2_eq_2)
  then show ?thesis
    using fitted_facts(2) by blast
qed

subsection \<open>Lifecycle\<close>

text \<open>
  C6, as stated, fails: a \<open>doFitMe\<close> scheduled before a detach and executed after it is
  not skipped when the element has been attached again in between, as happens when the
  element is moved in the document. On the fitted element a resize leaves one callback
  pending; after disconnecting and reconnecting there are three, the first of them the
  one queued before the detach, and the checkpoint calls \<open>textFit\<close> for all three.
\<close>

theorem callback_survives_reattach:
  "pending (run textFit_ok [IronResize, Disconnect] fitted) = [DoFitMe]
   \<and> \<not> isAttached (this (run textFit_ok [IronResize, Disconnect] fitted))
   \<and> pending (run textFit_ok [IronResize, Disconnect, Connect True] fitted)
       = [DoFitMe, DoFitMe, DoFitMe]
   \<and> textFitCalls
        (emitted fitted (run textFit_ok [IronResize, Disconnect, Connect True, Tick] fitted)) = 3"
  by code_simp

text \<open>
  C6, amended. Starting detached, after any sequence of events \<open>isAttached\<close> is true exactly
  when some connect (where \<open>attached()\<close> runs) has no disconnect (where \<open>detached()\<close> runs)
  after it. From a disconnect until the next connect, every \<open>doFitMe\<close> that runs (scheduled
  earlier or called by hand) returns at its first guard, so the trace gains nothing: the
  guard reads the flag when the callback runs. No operation withdraws a scheduled
  callback: \<open>detached\<close> and the disconnect leave the pending list as it is, and every event
  other than the checkpoint only appends to it. The class of src/unnamed/part_000 gives
  the same properties after every run, the same run from a disconnect to the next connect,
  and likewise only appends.
\<close>

theorem isAttached_lifecycle:
  "(\<not> isAttached (this s) \<longrightarrow>
      (isAttached (this (run tf evs s)) \<longleftrightarrow>
         (\<exists>pre b post. evs = pre @ Connect b # post \<and> Disconnect \<notin> set post)))
   \<and> ((\<forall>b. Connect b \<notin> set evs) \<longrightarrow> trace (run tf (Disconnect # evs) s) = trace s)
   \<and> pending (detached s) = pending s
   \<and> pending (legacy_disconnectedCallback detached s) = pending s
   \<and> (ev \<noteq> Tick \<longrightarrow> (\<exists>new. pending (step tf ev s) = pending s @ new))
   \<and> this (run' tf evs s) = this (run tf evs s)
   \<and> ((\<forall>b. Connect b \<notin> set evs) \<longrightarrow>
        run' tf (Disconnect # evs) s = run tf (Disconnect # evs) s)
   \<and> (ev \<noteq> Tick \<longrightarrow> (\<exists>new. pending (step' tf ev s) = pending s @ new))"
proof (intro conjI impI)
  assume "\<not> isAttached (this s)"
  then show "isAttached (this (run tf evs s)) \<longleftrightarrow>
         (\<exists>pre b post. evs = pre @ Connect b # post \<and> Disconnect \<notin> set post)"
    by (simp add: run_isAttached)
next
  assume "\<forall>b. Connect b \<notin> set evs"
  moreover have "\<not> isAttached (this (legacy_disconnectedCallback detached s))"
    by (simp add: disconnected_proj)
  ultimately have "trace (run tf evs (legacy_disconnectedCallback detached s))
      = trace (legacy_disconnectedCallback detached s)"
    by (simp add: run_detached_trace)
  then show "trace (run tf (Disconnect # evs) s) = trace s"
    by (simp add: disconnected_proj)
next
  show "pending (detached s) = pending s"
    by (simp add: detached_proj)
next
  show "pending (legacy_disconnectedCallback detached s) = pending s"
    by (simp add: disconnected_proj)
next
  assume "ev \<noteq> Tick"
  then show "\<exists>new. pending (step tf ev s) = pending s @ new"
    by (rule step_extends_pending)
next
  show "this (run' tf evs s) = this (run tf evs s)"
    by (rule run'_this) (rule refl)
next
  assume "\<forall>b. Connect b \<notin> set evs"
  then show "run' tf (Disconnect # evs) s = run tf (Disconnect # evs) s"
    by (intro run'_eq) auto
next
  assume "ev \<noteq> Tick"
  then show "\<exists>new. pending (step' tf ev s) = pending s @ new"
    by (rule step'_extends_pending)
qed

theorem isAttached_lifecycle_witness:
  "\<not> isAttached (this created)
   \<and> isAttached (this (run textFit_ok [Connect True, Disconnect, Connect False, Tick] created))
   \<and> \<not> isAttached (this (run textFit_ok [Connect True, IronResize, Disconnect, Tick] created))
   \<and> trace (run textFit_ok [Disconnect, IronResize, Tick, ManualFit] (onIronResize fitted)) =
       trace (onIronResize fitted)
   \<and> IronResize \<noteq> Tick
   \<and> (\<exists>new. pending (step textFit_ok IronResize fitted) = pending fitted @ new)"
proof -
  note a = created_facts(1)
  have e1: "\<exists>pre b post. [Connect True, Disconnect, Connect False, Tick] = pre @ Connect b # post
      \<and> Disconnect \<notin> set post"
    by (intro exI [of _ "[Connect True, Disconnect]"] exI [of _ False] exI [of _ "[Tick]"]) simp
  have e2: "\<not> (\<exists>pre b post. [Connect True, IronResize, Disconnect, Tick] = pre @ Connect b # post
      \<and> Disconnect \<notin> set post)"
    by (auto simp: Cons_eq_append_conv)
  have n: "\<forall>b. Connect b \<notin> set [IronResize, Tick, ManualFit]" and k: "IronResize \<noteq> Tick"
    by simp_all
  have "isAttached (this (run textFit_ok [Connect True, Disconnect, Connect False, Tick] created))"
    using isAttached_lifecycle
      [of created textFit_ok "[Connect True, Disconnect, Connect False, Tick]"] a e1
    by blast
  moreover have "\<not> isAttached (this (run textFit_ok [Connect True, IronResize, Disconnect, Tick] created))"
    using isAttached_lifecycle
      [of created textFit_ok "[Connect True, IronResize, Disconnect, Tick]"] a e2
    by blast
  moreover have "trace (run textFit_ok [Disconnect, IronResize, Tick, ManualFit] (onIronResize fitted)) =
       trace (onIronResize fitted)"
    using isAttached_lifecycle [of "onIronResize fitted" textFit_ok "[IronResize, Tick, ManualFit]"] n
    by blast
  moreover have "\<exists>new. pending (step textFit_ok IronResize fitted) = pending fitted @ new"
    using isAttached_lifecycle [of fitted textFit_ok "[]" IronResize] k by blast
  ultimately show ?thesis
    using a k by blast
qed

subsection \<open>The two source files\<close>

text \<open>
  C10, as stated, fails: the two classes are not equivalent at the component interface.
  Connecting the same created element for the first time and running the checkpoint
  calls \<open>textFit\<close> three times with the class of src/unnamed/part_000 and twice with the
  class of src/textfit-div.js.
\<close>

theorem first_connect_differs:
  "textFitCalls (trace (run' textFit_ok [Connect True, Tick] created))
     \<noteq> textFitCalls (trace (run textFit_ok [Connect True, Tick] created))
   \<and> textFitCalls (trace (run' textFit_ok [Connect True, Tick] created)) = 3
   \<and> textFitCalls (trace (run textFit_ok [Connect True, Tick] created)) = 2"
  by code_simp

text \<open>
  C10, amended. Both files declare the same twelve property defaults, and their
  \<open>attached\<close>, \<open>detached\<close>, \<open>_textChanged\<close>, resize handler and \<open>doFitMe\<close> are equal as
  functions, so every event except a connect acts alike on both classes. The classes
  differ when a fresh element is connected for the first time: src/unnamed/part_000
  registers its listener in \<open>ready\<close>, before \<open>attached\<close> runs, so the resize notification of
  \<open>super.attached()\<close> already runs its handler and one more \<open>doFitMe\<close> callback is queued
  than by src/textfit-div.js, which registers its listener only after
  \<open>super.connectedCallback()\<close> has returned; the states after that connect are otherwise
  equal.
\<close>

theorem implementations_agree:
  "(properties' :: 'n::numeral component) = properties
   \<and> (attached' :: bool \<Rightarrow> 'n element \<Rightarrow> 'n element) = attached
   \<and> (detached' :: 'n element \<Rightarrow> 'n element) = detached
   \<and> (textChanged' :: string \<Rightarrow> string option \<Rightarrow> 'n element \<Rightarrow> 'n element) = textChanged
   \<and> (onIronResize' :: 'n element \<Rightarrow> 'n element) = onIronResize
   \<and> (doFitMe' :: 'n textFit \<Rightarrow> 'n element \<Rightarrow> 'n completion) = doFitMe
   \<and> ((\<forall>b. ev \<noteq> Connect b) \<longrightarrow> step' tf ev s = step tf ev (s :: 'n element))
   \<and> (\<not> dataEnabled s \<and> listeners s = 0 \<longrightarrow>
        connected' notify s =
          (connectedCallback notify s)
            \<lparr>pending := pending (connectedCallback notify s)
               @ (if notify \<and> \<not> manualFire (this s) then [DoFitMe] else [])\<rparr>)"
proof -
  have "(properties' :: 'n component) = properties"
    unfolding properties'_def properties_def by (rule refl)
  moreover have "(\<forall>b. ev \<noteq> Connect b) \<longrightarrow> step' tf ev s = step tf ev s"
    by (simp add: step'_eq)
  moreover have "\<not> dataEnabled s \<and> listeners s = 0 \<longrightarrow>
        connected' notify s =
          (connectedCallback notify s)
            \<lparr>pending := pending (connectedCallback notify s)
               @ (if notify \<and> \<not> manualFire (this s) then [DoFitMe] else [])\<rparr>"
    using connected'_vs_connectedCallback [of s notify] by blast
  ultimately show ?thesis
    using primed_members [where ?'n = 'n] by blast
qed

theorem implementations_agree_witness:
  "\<not> dataEnabled created \<and> listeners created = 0 \<and> \<not> manualFire (this created)
   \<and> connected' True created =
       (connectedCallback True created)\<lparr>pending := pending (connectedCallback True created) @ [DoFitMe]\<rparr>
   \<and> step' textFit_ok IronResize fitted = step textFit_ok IronResize fitted"
proof -
  have k: "\<forall>b. IronResize \<noteq> Connect b"
    by simp
  have "connected' True created =
       (connectedCallback True created)
         \<lparr>pending := pending (connectedCallback True created)
            @ (if True \<and> \<not> manualFire (this created) then [DoFitMe] else [])\<rparr>"
    using implementations_agree [of IronResize textFit_ok created True]
      created_facts(4,5) by blast
  moreover have "step' textFit_ok IronResize fitted = step textFit_ok IronResize fitted"
    using implementations_agree [of IronResize textFit_ok fitted True] k by blast
  ultimately show ?thesis
    using created_facts(2,4,5) by simp
qed

end
